theory Spec2Isabelle
  imports Main "HOL-Library.Sublist"
begin

section \<open>Python string operations used by the application\<close>

text \<open>
  A Python \<open>str\<close> is modelled as a \<open>string\<close> whose characters are the code points
  below 256.  \<open>isspace\<close> lists the code points in that range that \<open>str.strip()\<close>
  removes: tab, line feed, vertical tab, form feed, carriage return, the four
  separators 28..31, space, NEL (133) and the no-break space (160).
\<close>

definition isspace :: "char \<Rightarrow> bool" where
  "isspace c = (of_char c \<in> {9, 10, 11, 12, 13, 28, 29, 30, 31, 32, 133, 160 :: nat})"

text \<open>\<open>s.strip()\<close>\<close>

definition strip :: "string \<Rightarrow> string" where
  "strip s = rev (dropWhile isspace (rev (dropWhile isspace s)))"

text \<open>\<open>sub in s\<close>\<close>

fun str_in :: "string \<Rightarrow> string \<Rightarrow> bool" where
  "str_in sub [] = (sub = [])"
| "str_in sub (c # cs) = (prefix sub (c # cs) \<or> str_in sub cs)"

text \<open>\<open>s.startswith(p)\<close>\<close>

definition startswith :: "string \<Rightarrow> string \<Rightarrow> bool" where
  "startswith s p = prefix p s"

text \<open>
  \<open>s.split(sep)\<close> for a separator: the string is scanned from the left, every
  occurrence of \<open>sep\<close> found at the scanning position ends the current piece and is
  skipped as a whole (occurrences never overlap).  Python raises \<open>ValueError\<close> for an
  empty separator; every call in the application passes a non-empty literal, and the
  model returns the unsplit string for an empty one.
\<close>

fun split :: "string \<Rightarrow> string \<Rightarrow> string list" where
  "split sep [] = [[]]"
| "split sep (c # cs) =
     (if sep \<noteq> [] \<and> prefix sep (c # cs)
      then [] # split sep (drop (length sep - 1) cs)
      else (case split sep cs of
              [] \<Rightarrow> [[c]]
            | p # ps \<Rightarrow> (c # p) # ps))"

text \<open>\<open>sep.join(pieces)\<close>\<close>

fun join :: "string \<Rightarrow> string list \<Rightarrow> string" where
  "join sep [] = []"
| "join sep [p] = p"
| "join sep (p # q # ps) = p @ sep @ join sep (q # ps)"

text \<open>\<open>s.replace(old, new)\<close> for a non-empty \<open>old\<close>: the occurrences that
  \<open>split\<close> finds are the ones replaced.\<close>

definition replace :: "string \<Rightarrow> string \<Rightarrow> string \<Rightarrow> string" where
  "replace old new s = join new (split old s)"

text \<open>
  List indexing \<open>xs[-1]\<close> and \<open>xs[0]\<close>: \<open>None\<close> stands for the \<open>IndexError\<close>
  Python raises on an empty list.
\<close>

definition index_last :: "'a list \<Rightarrow> 'a option" where
  "index_last xs = (if xs = [] then None else Some (last xs))"

definition index_first :: "'a list \<Rightarrow> 'a option" where
  "index_first xs = (case xs of [] \<Rightarrow> None | x # _ \<Rightarrow> Some x)"

text \<open>\<open>str(n)\<close> for an integer.\<close>

fun str_nat :: "nat \<Rightarrow> string" where
  "str_nat n =
     (if n < 10 then [char_of (48 + n)]
      else str_nat (n div 10) @ [char_of (48 + n mod 10)])"

declare str_nat.simps [simp del]

definition str_int :: "int \<Rightarrow> string" where
  "str_int i = (if i < 0 then CHR ''-'' # str_nat (nat (- i)) else str_nat (nat i))"


section \<open>models.py: the Video row and its derived properties\<close>

record Video =
  id_col :: int
  title :: string
  description :: "string option"
  hashtags :: "string option"
  streamtape_url :: string
  streamtape_id :: string
  banner_path :: string
  created_at :: nat
  updated_at :: nat

text \<open>
  \<open>Video.hashtag_list\<close>: \<open>not self.hashtags\<close> holds for \<open>None\<close> and for the empty
  string; otherwise the list comprehension keeps \<open>tag.strip()\<close> for every piece
  whose stripped form is non-empty.
\<close>

definition hashtag_list :: "Video \<Rightarrow> string list" where
  "hashtag_list v =
     (case hashtags v of
        None \<Rightarrow> []
      | Some h \<Rightarrow>
          if h = [] then []
          else map strip (filter (\<lambda>tag. strip tag \<noteq> []) (split '','' h)))"

text \<open>\<open>Video.embed_url\<close>\<close>

definition embed_url :: "Video \<Rightarrow> string" where
  "embed_url v = ''https://streamtape.com/e/'' @ streamtape_id v @ ''/''"


section \<open>main.py: utility functions\<close>

text \<open>
  \<open>extract_streamtape_id\<close>.  \<open>extract_body\<close> is the body of the \<open>try\<close> block, with
  \<open>None\<close> for an exception raised inside it; the handler turns that into the
  sentinel.
\<close>

definition extract_body :: "string \<Rightarrow> string option" where
  "extract_body url =
     (if str_in ''/e/'' url
      then Option.bind (index_last (split ''/e/'' url))
             (\<lambda>t. index_first (split ''/'' t))
      else map_option (replace ''/'' [])
             (index_last (split ''/'' url)))"

definition extract_streamtape_id :: "string \<Rightarrow> string" where
  "extract_streamtape_id url =
     (case extract_body url of
        Some r \<Rightarrow> r
      | None \<Rightarrow> ''invalid_id'')"

datatype http_exception = HTTPException (status_code: nat) (detail: string)

text \<open>\<open>validate_form_input\<close>: returns normally or raises one of three 400 errors.\<close>

definition title_required :: http_exception where
  "title_required = HTTPException 400 ''Title is required''"

definition title_too_long :: http_exception where
  "title_too_long = HTTPException 400 ''Title too long (max 255 characters)''"

definition invalid_url :: http_exception where
  "invalid_url = HTTPException 400
     (''Invalid Streamtape URL - must contain '' @ [char_of (39::nat)] @
      ''streamtape.com'' @ [char_of (39::nat)])"

definition validate_form_input :: "string \<Rightarrow> string \<Rightarrow> http_exception + unit" where
  "validate_form_input ttl url =
     (if ttl = [] \<or> length (strip ttl) = 0 then Inl title_required
      else if length (strip ttl) > 255 then Inl title_too_long
      else if url = [] \<or> \<not> str_in ''streamtape.com'' url then Inl invalid_url
      else Inr ())"


section \<open>The world a request runs in\<close>

text \<open>
  An uploaded file as the handlers see it (\<open>UploadFile\<close>): its name and declared
  content type may be absent, \<open>content\<close> is what \<open>file.read()\<close> returns.
\<close>

record UploadFile =
  filename :: "string option"
  content_type :: "string option"
  content :: string

text \<open>
  What the libraries do during one request is given by an environment: the
  identifier \<open>uuid.uuid4()\<close> returns, how writing the banner goes (the file is
  written; \<open>aiofiles.open\<close> raises; or the file is opened, hence created or
  truncated, and reading or writing raises, leaving the bytes given), whether
  \<open>os.remove\<close> raises, whether \<open>db.commit()\<close> and \<open>db.refresh()\<close> raise (with the
  exception's text), and the clock.  Reading the table is taken to succeed.
\<close>

datatype write_outcome = Written | OpenFailed string | WriteFailed string string

record env =
  uuid4 :: string
  write_result :: write_outcome
  remove_raises :: bool
  commit_raises :: "string option"
  refresh_raises :: "string option"
  utcnow :: nat

text \<open>
  The state outside the process: the rows of table \<open>videos\<close>, the files on storage
  (path to content), and the storage and database effects in the order they
  happened.
\<close>

datatype event =
    FileWritten string
  | FileRemoved string
  | RemoveFailed string
  | Committed
  | CommitFailed

record world =
  rows :: "Video list"
  files :: "string \<rightharpoonup> string"
  effects :: "event list"

datatype response = RedirectResponse string nat

text \<open>\<open>db.query(Video).filter(Video.id == video_id).first()\<close>\<close>

definition query_first :: "int \<Rightarrow> world \<Rightarrow> Video option" where
  "query_first video_id w = find (\<lambda>v. id_col v = video_id) (rows w)"

text \<open>The key the database gives a new row: one more than the largest key in use.\<close>

definition new_id :: "Video list \<Rightarrow> int" where
  "new_id rs = 1 + fold max (map id_col rs) 0"

text \<open>\<open>x.strip() if x else None\<close> for an optional form field.\<close>

definition strip_or_none :: "string option \<Rightarrow> string option" where
  "strip_or_none x =
     (case x of
        None \<Rightarrow> None
      | Some s \<Rightarrow> if s = [] then None else Some (strip s))"

text \<open>
  \<open>save_uploaded_file\<close>.  \<open>split\<close> never returns an empty list, so the index
  \<open>[-1]\<close> of the extension cannot raise.
\<close>

definition no_file_provided :: http_exception where
  "no_file_provided = HTTPException 400 ''No file provided''"

definition only_images :: http_exception where
  "only_images = HTTPException 400 ''Only image files are allowed''"

definition failed_to_save :: "string \<Rightarrow> http_exception" where
  "failed_to_save msg = HTTPException 500 (''Failed to save file: '' @ msg)"

definition file_extension :: "string \<Rightarrow> string" where
  "file_extension name =
     (if str_in ''.'' name then last (split ''.'' name) else ''jpg'')"

definition is_image :: "string option \<Rightarrow> bool" where
  "is_image ct =
     (case ct of
        None \<Rightarrow> False
      | Some t \<Rightarrow> t \<noteq> [] \<and> startswith t ''image/'')"

definition new_file_path :: "env \<Rightarrow> string \<Rightarrow> string" where
  "new_file_path e name = ''static/banners/'' @ uuid4 e @ ''.'' @ file_extension name"

definition save_uploaded_file ::
  "env \<Rightarrow> UploadFile \<Rightarrow> world \<Rightarrow> (http_exception + string) \<times> world" where
  "save_uploaded_file e f w =
     (case filename f of
        None \<Rightarrow> (Inl no_file_provided, w)
      | Some name \<Rightarrow>
          if name = [] then (Inl no_file_provided, w)
          else if \<not> is_image (content_type f) then (Inl only_images, w)
          else
            let file_path = new_file_path e name
            in (case write_result e of
                  Written \<Rightarrow>
                    (Inr file_path,
                     w\<lparr>files := (files w)(file_path \<mapsto> content f),
                       effects := effects w @ [FileWritten file_path]\<rparr>)
                | OpenFailed msg \<Rightarrow> (Inl (failed_to_save msg), w)
                | WriteFailed msg part \<Rightarrow>
                    (Inl (failed_to_save msg),
                     w\<lparr>files := (files w)(file_path \<mapsto> part)\<rparr>)))"

text \<open>\<open>delete_file_safely\<close>: an exception of \<open>os.remove\<close> is swallowed.\<close>

definition delete_file_safely :: "env \<Rightarrow> string \<Rightarrow> world \<Rightarrow> world" where
  "delete_file_safely e file_path w =
     (if file_path \<noteq> [] \<and> files w file_path \<noteq> None
      then (if remove_raises e
            then w\<lparr>effects := effects w @ [RemoveFailed file_path]\<rparr>
            else w\<lparr>files := (files w)(file_path := None),
                   effects := effects w @ [FileRemoved file_path]\<rparr>)
      else w)"


section \<open>main.py: the admin operations\<close>

definition not_found :: http_exception where
  "not_found = HTTPException 404 ''Video not found''"

definition see_admin :: response where
  "see_admin = RedirectResponse ''/admin'' 303"

text \<open>
  \<open>upload_video\<close>.  The two \<open>HTTPException\<close>s of the \<open>try\<close> block come from
  validation and from \<open>save_uploaded_file\<close>, both before \<open>file_path\<close> is bound, so
  that handler deletes nothing.  An exception of \<open>db.commit()\<close> or
  \<open>db.refresh()\<close> reaches the second handler, which deletes the banner and raises
  the 500 error.  The row gets its key and both timestamps at the insert.
\<close>

definition failed_to_upload :: "string \<Rightarrow> http_exception" where
  "failed_to_upload msg = HTTPException 500 (''Failed to upload video: '' @ msg)"

definition upload_video ::
  "env \<Rightarrow> string \<Rightarrow> string option \<Rightarrow> string option \<Rightarrow> string \<Rightarrow> UploadFile \<Rightarrow> world
     \<Rightarrow> (http_exception + response) \<times> world" where
  "upload_video e ttl descr tags url banner w =
     (case validate_form_input ttl url of
        Inl err \<Rightarrow> (Inl err, w)
      | Inr _ \<Rightarrow>
          (case save_uploaded_file e banner w of
             (Inl err, w1) \<Rightarrow> (Inl err, w1)
           | (Inr file_path, w1) \<Rightarrow>
               let video = \<lparr>id_col = new_id (rows w1),
                            title = strip ttl,
                            description = strip_or_none descr,
                            hashtags = strip_or_none tags,
                            streamtape_url = strip url,
                            streamtape_id = extract_streamtape_id url,
                            banner_path = file_path,
                            created_at = utcnow e,
                            updated_at = utcnow e\<rparr>
               in (case commit_raises e of
                     Some msg \<Rightarrow>
                       (Inl (failed_to_upload msg),
                        delete_file_safely e file_path
                          (w1\<lparr>effects := effects w1 @ [CommitFailed]\<rparr>))
                   | None \<Rightarrow>
                       let w2 = w1\<lparr>rows := rows w1 @ [video],
                                   effects := effects w1 @ [Committed]\<rparr>
                       in (case refresh_raises e of
                             Some msg \<Rightarrow>
                               (Inl (failed_to_upload msg),
                                delete_file_safely e file_path w2)
                           | None \<Rightarrow> (Inr see_admin, w2)))))"

text \<open>
  \<open>delete_video\<close>: the banner is deleted first, then the row; an exception of
  the commit leaves the row in the table.
\<close>

definition failed_to_delete :: "string \<Rightarrow> http_exception" where
  "failed_to_delete msg = HTTPException 500 (''Failed to delete video: '' @ msg)"

definition delete_video ::
  "env \<Rightarrow> int \<Rightarrow> world \<Rightarrow> (http_exception + response) \<times> world" where
  "delete_video e video_id w =
     (case query_first video_id w of
        None \<Rightarrow> (Inl not_found, w)
      | Some video \<Rightarrow>
          let w1 = delete_file_safely e (banner_path video) w
          in (case commit_raises e of
                Some msg \<Rightarrow>
                  (Inl (failed_to_delete msg),
                   w1\<lparr>effects := effects w1 @ [CommitFailed]\<rparr>)
              | None \<Rightarrow>
                  (Inr see_admin,
                   w1\<lparr>rows := filter (\<lambda>r. id_col r \<noteq> id_col video) (rows w1),
                      effects := effects w1 @ [Committed]\<rparr>)))"

text \<open>
  \<open>update_video\<close>.  The assignments to \<open>video\<close> change the session's object only;
  the table changes at \<open>db.commit()\<close>, which also sets \<open>updated_at\<close>
  (\<open>onupdate\<close>).  \<open>new_banner\<close> is the upload when \<open>banner and banner.filename\<close>
  holds, that is when one is present with a non-empty file name.
\<close>

definition failed_to_update :: "string \<Rightarrow> http_exception" where
  "failed_to_update msg = HTTPException 500 (''Failed to update video: '' @ msg)"

definition new_banner :: "UploadFile option \<Rightarrow> UploadFile option" where
  "new_banner banner =
     (case banner of
        None \<Rightarrow> None
      | Some f \<Rightarrow>
          (case filename f of
             None \<Rightarrow> None
           | Some name \<Rightarrow> if name = [] then None else Some f))"

definition commit_update ::
  "env \<Rightarrow> Video \<Rightarrow> world \<Rightarrow> (http_exception + response) \<times> world" where
  "commit_update e video w =
     (case commit_raises e of
        Some msg \<Rightarrow>
          (Inl (failed_to_update msg), w\<lparr>effects := effects w @ [CommitFailed]\<rparr>)
      | None \<Rightarrow>
          (Inr see_admin,
           w\<lparr>rows := map (\<lambda>r. if id_col r = id_col video
                               then video\<lparr>updated_at := utcnow e\<rparr> else r) (rows w),
             effects := effects w @ [Committed]\<rparr>))"

definition update_video ::
  "env \<Rightarrow> int \<Rightarrow> string \<Rightarrow> string option \<Rightarrow> string option \<Rightarrow> string
     \<Rightarrow> UploadFile option \<Rightarrow> world \<Rightarrow> (http_exception + response) \<times> world" where
  "update_video e video_id ttl descr tags url banner w =
     (case query_first video_id w of
        None \<Rightarrow> (Inl not_found, w)
      | Some video0 \<Rightarrow>
          (case validate_form_input ttl url of
             Inl err \<Rightarrow> (Inl err, w)
           | Inr _ \<Rightarrow>
               let old_banner_path = banner_path video0;
                   video = video0\<lparr>title := strip ttl,
                                  description := strip_or_none descr,
                                  hashtags := strip_or_none tags,
                                  streamtape_url := strip url,
                                  streamtape_id := extract_streamtape_id url\<rparr>
               in (case new_banner banner of
                     Some f \<Rightarrow>
                       (case save_uploaded_file e f w of
                          (Inl err, w1) \<Rightarrow> (Inl err, w1)
                        | (Inr new_banner_path, w1) \<Rightarrow>
                            commit_update e (video\<lparr>banner_path := new_banner_path\<rparr>)
                              (if old_banner_path \<noteq> new_banner_path
                               then delete_file_safely e old_banner_path w1
                               else w1))
                   | None \<Rightarrow> commit_update e video w)))"


section \<open>main.py: the JSON endpoint for one video\<close>

record video_json =
  json_id :: int
  json_title :: string
  json_description :: "string option"
  json_hashtags :: "string list"
  json_streamtape_url :: string
  json_streamtape_id :: string
  json_embed_url :: string
  json_banner_url :: string
  json_watch_url :: string
  json_created_at :: nat
  json_updated_at :: nat

text \<open>\<open>get_video_api\<close>; the timestamps are left as they are stored, their
  \<open>isoformat()\<close> rendering is not modelled.\<close>

definition get_video_api :: "int \<Rightarrow> world \<Rightarrow> http_exception + video_json" where
  "get_video_api video_id w =
     (case query_first video_id w of
        None \<Rightarrow> Inl not_found
      | Some video \<Rightarrow>
          Inr \<lparr>json_id = id_col video,
               json_title = title video,
               json_description = description video,
               json_hashtags = hashtag_list video,
               json_streamtape_url = streamtape_url video,
               json_streamtape_id = streamtape_id video,
               json_embed_url = embed_url video,
               json_banner_url = ''/'' @ banner_path video,
               json_watch_url = ''/watch/'' @ str_int (id_col video),
               json_created_at = created_at video,
               json_updated_at = updated_at video\<rparr>)"


section \<open>Sample data\<close>

definition sample_video :: Video where
  "sample_video =
     \<lparr>id_col = 1, title = ''Clip'', description = None,
      hashtags = Some ''a, b,, c '',
      streamtape_url = ''https://streamtape.com/v/ABC123/clip.mp4'',
      streamtape_id = ''clip.mp4'',
      banner_path = ''static/banners/old.jpg'',
      created_at = 5, updated_at = 5\<rparr>"

definition sample_world :: world where
  "sample_world =
     \<lparr>rows = [sample_video],
      files = [''static/banners/old.jpg'' \<mapsto> ''OLD''],
      effects = []\<rparr>"


definition sample_banner :: UploadFile where
  "sample_banner =
     \<lparr>filename = Some ''new.png'', content_type = Some ''image/png'', content = ''PNG''\<rparr>"

definition sample_env :: env where
  "sample_env =
     \<lparr>uuid4 = ''u2'', write_result = Written, remove_raises = False,
      commit_raises = None, refresh_raises = None, utcnow = 9\<rparr>"


section \<open>Facts about the string operations\<close>

lemma str_in_sublist: "str_in sub s \<longleftrightarrow> sublist sub s"
  by (induction s) (auto simp: sublist_Cons_right)

lemma split_not_Nil: "split sep s \<noteq> []"
  by (induction sep s rule: split.induct) (auto split: list.splits)

lemma join_Cons_Cons: "ps \<noteq> [] \<Longrightarrow> join sep (p # ps) = p @ sep @ join sep ps"
  by (cases ps) auto

lemma join_Cons_hd: "ps \<noteq> [] \<Longrightarrow> join sep ((c # p) # ps) = c # join sep (p # ps)"
  by (cases ps) auto

lemma join_split: "sep \<noteq> [] \<Longrightarrow> join sep (split sep s) = s"
proof (induction sep s rule: split.induct)
  case (1 sep)
  then show ?case by simp
next
  case (2 sep c cs)
  show ?case
  proof (cases "prefix sep (c # cs)")
    case True
    then obtain r where r: "c # cs = sep @ r" by (auto simp: prefix_def)
    with 2 obtain sep' where sep: "sep = c # sep'" by (cases sep) auto
    with r have cs: "cs = sep' @ r" by simp
    have d: "drop (length sep - 1) cs = r" using sep cs by simp
    have "join sep (split sep (c # cs)) = sep @ join sep (split sep r)"
      using True 2(3) d split_not_Nil[of sep r] by (simp add: join_Cons_Cons)
    also have "join sep (split sep r) = r"
      using 2(1)[OF _ 2(3)] True 2(3) d by simp
    finally show ?thesis using r by simp
  next
    case False
    obtain p ps where ps: "split sep cs = p # ps"
      using split_not_Nil[of sep cs] by (cases "split sep cs") auto
    have "join sep (split sep cs) = cs" using 2(2)[OF _ 2(3)] False by simp
    then show ?thesis using False ps by (cases ps) auto
  qed
qed

lemma split_no_sep: "\<not> str_in sep s \<Longrightarrow> split sep s = [s]"
  by (induction s) auto

lemma split_pieces_no_char: "p \<in> set (split [c] s) \<Longrightarrow> c \<notin> set p"
  by (induction s arbitrary: p) (auto split: if_splits list.splits)

lemma last_split_no_sep: "sep \<noteq> [] \<Longrightarrow> \<not> str_in sep (last (split sep s))"
proof (induction sep s rule: split.induct)
  case (1 sep)
  then show ?case by simp
next
  case (2 sep c cs)
  show ?case
  proof (cases "prefix sep (c # cs)")
    case True
    then show ?thesis using 2 split_not_Nil[of sep "drop (length sep - 1) cs"] by simp
  next
    case False
    obtain p ps where ps: "split sep cs = p # ps"
      using split_not_Nil[of sep cs] by (cases "split sep cs") auto
    have ih: "\<not> str_in sep (last (split sep cs))" using 2(2)[OF _ 2(3)] False by simp
    show ?thesis
    proof (cases ps)
      case Nil
      have "split sep cs = [cs]" using join_split[OF 2(3), of cs] ps Nil by simp
      then show ?thesis using False ih by simp
    next
      case (Cons q qs)
      then show ?thesis using False ps ih by simp
    qed
  qed
qed

lemma join_snoc: "ps \<noteq> [] \<Longrightarrow> join sep (ps @ [q]) = join sep ps @ sep @ q"
  by (induction sep ps rule: join.induct) auto

lemma last_split_suffix:
  assumes sep: "sep \<noteq> []" and occ: "str_in sep s"
  shows "s = join sep (butlast (split sep s)) @ sep @ last (split sep s)"
proof -
  let ?ps = "split sep s"
  have ne: "?ps \<noteq> []" by (rule split_not_Nil)
  have "butlast ?ps \<noteq> []"
  proof
    assume "butlast ?ps = []"
    then have "?ps = [last ?ps]" using ne by (metis append_butlast_last_id append_Nil)
    then have "join sep ?ps = last ?ps" by (metis join.simps(2))
    then have "s = last ?ps" using join_split[OF sep, of s] by simp
    then show False using last_split_no_sep[OF sep, of s] occ by simp
  qed
  then have "join sep (butlast ?ps @ [last ?ps]) = join sep (butlast ?ps) @ sep @ last ?ps"
    by (rule join_snoc)
  then show ?thesis using join_split[OF sep, of s] ne by simp
qed

lemma hd_split_char: "hd (split [c] s) = takeWhile (\<lambda>x. x \<noteq> c) s"
  using split_not_Nil[of "[c]"] by (induction s) (auto split: list.splits)

lemma split_char_notin: "c \<notin> set s \<Longrightarrow> split [c] s = [s]"
  by (induction s) auto

lemma last_split_char: "last (split [c] s) = rev (takeWhile (\<lambda>x. x \<noteq> c) (rev s))"
proof (induction s)
  case Nil
  then show ?case by simp
next
  case (Cons a s)
  obtain p ps where ps: "split [c] s = p # ps"
    using split_not_Nil[of "[c]" s] by (cases "split [c] s") auto
  show ?case
  proof (cases "a = c")
    case True
    then show ?thesis using Cons split_not_Nil[of "[c]" s]
      by (simp add: takeWhile_append)
  next
    case False
    show ?thesis
    proof (cases ps)
      case Nil
      with ps have "split [c] s = [p]" by simp
      then have "s = p" using join_split[of "[c]" s] by simp
      moreover have "c \<notin> set p" using split_pieces_no_char[of p c s] ps by simp
      ultimately show ?thesis using False ps Nil
        by (simp add: takeWhile_append)
    next
      case (Cons q qs)
      have "c \<in> set s" using split_char_notin[of c s] ps Cons by auto
      then show ?thesis using False ps Cons Cons.IH
        by (auto simp add: takeWhile_append) 
    qed
  qed
qed


lemma join_Nil_concat: "join [] ps = concat ps"
  by (induction "[] :: string" ps rule: join.induct) auto

lemma replace_char_empty: "replace [c] [] s = filter (\<lambda>x. x \<noteq> c) s"
  unfolding replace_def join_Nil_concat
  using split_not_Nil[of "[c]"] by (induction s) (auto split: list.splits)

lemma prefix_shorter:
  "prefix sep (xs @ ys) \<Longrightarrow> length sep \<le> length xs \<Longrightarrow> prefix sep xs"
proof -
  assume p: "prefix sep (xs @ ys)" and l: "length sep \<le> length xs"
  from p obtain zs where "xs @ ys = sep @ zs" by (auto simp: prefix_def)
  then have "take (length sep) (xs @ ys) = sep" by (metis append_eq_conv_conj)
  with l have "take (length sep) xs = sep" by simp
  then show "prefix sep xs" by (metis take_is_prefix)
qed

lemma split_first_occurrence:
  assumes "sep \<noteq> []" and "\<not> str_in sep (pre @ butlast sep)"
  shows "split sep (pre @ sep @ rest) = pre # split sep rest"
  using assms
proof (induction pre)
  case Nil
  then obtain c sep' where "sep = c # sep'" by (cases sep) auto
  then show ?case by simp
next
  case (Cons a pre)
  have np: "\<not> prefix sep (a # pre @ sep @ rest)"
  proof
    assume pf: "prefix sep (a # pre @ sep @ rest)"
    have "(a # pre @ butlast sep) @ ([last sep] @ rest) = a # pre @ (butlast sep @ [last sep]) @ rest"
      by simp
    also have "\<dots> = a # pre @ sep @ rest"
      by (simp only: append_butlast_last_id[OF Cons.prems(1)])
    finally have eq: "(a # pre @ butlast sep) @ ([last sep] @ rest) = a # pre @ sep @ rest" .
    have "prefix sep ((a # pre @ butlast sep) @ ([last sep] @ rest))"
      unfolding eq by (rule pf)
    then have "prefix sep (a # pre @ butlast sep)"
      by (rule prefix_shorter) simp
    then show False using Cons.prems(2) by simp
  qed
  have "\<not> str_in sep (pre @ butlast sep)" using Cons.prems(2) by simp
  then have "split sep (pre @ sep @ rest) = pre # split sep rest"
    using Cons.IH Cons.prems(1) by simp
  then show ?case using np by simp
qed

section \<open>Facts about the table\<close>

lemma find_Some_id: "find (\<lambda>v. id_col v = k) rs = Some v \<Longrightarrow> id_col v = k"
  by (auto simp: find_Some_iff)

lemma embed_url_has_e: "str_in ''/e/'' (embed_url v)"
proof -
  have "embed_url v = ''https://streamtape.com'' @ ''/e/'' @ (streamtape_id v @ ''/'')"
    by (simp add: embed_url_def)
  then show ?thesis
    unfolding str_in_sublist sublist_def by blast
qed


section \<open>The derived embed URL\<close>

text \<open>
  Claim C10.  The \<open>embed_url\<close> of a video is the text
  \<open>https://streamtape.com/e/\<close>, the stored \<open>streamtape_id\<close> and a slash.  It does
  not depend on the stored \<open>streamtape_url\<close>; \<open>get_video_api\<close> returns it next to the
  stored URL; and for a stored URL without \<open>/e/\<close> the two differ.
\<close>

theorem embed_url_from_id_only:
  "embed_url v = ''https://streamtape.com/e/'' @ streamtape_id v @ ''/'' \<and>
   embed_url (v\<lparr>streamtape_url := u\<rparr>) = embed_url v \<and>
   (query_first video_id w = Some v \<longrightarrow>
      (\<exists>j. get_video_api video_id w = Inr j \<and>
           json_embed_url j = ''https://streamtape.com/e/'' @ streamtape_id v @ ''/'' \<and>
           json_streamtape_url j = streamtape_url v)) \<and>
   (\<not> str_in ''/e/'' (streamtape_url v) \<longrightarrow> embed_url v \<noteq> streamtape_url v)"
proof -
  have a: "embed_url v = ''https://streamtape.com/e/'' @ streamtape_id v @ ''/''"
    by (simp add: embed_url_def)
  have b: "embed_url (v\<lparr>streamtape_url := u\<rparr>) = embed_url v"
    by (simp add: embed_url_def)
  have c: "query_first video_id w = Some v \<longrightarrow>
      (\<exists>j. get_video_api video_id w = Inr j \<and>
           json_embed_url j = ''https://streamtape.com/e/'' @ streamtape_id v @ ''/'' \<and>
           json_streamtape_url j = streamtape_url v)"
    by (simp add: get_video_api_def embed_url_def)
  have d: "\<not> str_in ''/e/'' (streamtape_url v) \<longrightarrow> embed_url v \<noteq> streamtape_url v"
    using embed_url_has_e[of v] by auto
  from a b c d show ?thesis by blast
qed

theorem embed_url_from_id_only_witness:
  "query_first 1 sample_world = Some sample_video \<and>
   \<not> str_in ''/e/'' (streamtape_url sample_video) \<and>
   (\<exists>j. get_video_api 1 sample_world = Inr j \<and>
        json_embed_url j = ''https://streamtape.com/e/clip.mp4/'' \<and>
        json_streamtape_url j = ''https://streamtape.com/v/ABC123/clip.mp4'') \<and>
   embed_url sample_video \<noteq> streamtape_url sample_video"
proof -
  have q: "query_first 1 sample_world = Some sample_video"
    by (simp add: query_first_def sample_world_def sample_video_def)
  have n: "\<not> str_in ''/e/'' (streamtape_url sample_video)"
    by (simp add: sample_video_def)
  have s: "streamtape_id sample_video = ''clip.mp4''"
          "streamtape_url sample_video = ''https://streamtape.com/v/ABC123/clip.mp4''"
    by (simp_all add: sample_video_def)
  show ?thesis
    using embed_url_from_id_only[of sample_video "[]" 1 sample_world] q n s by simp
qed

section \<open>The hashtag list\<close>

lemma strip_Nil_iff: "strip s = [] \<longleftrightarrow> list_all isspace s"
proof
  assume "list_all isspace s"
  then have "dropWhile isspace s = []" by (simp add: list_all_iff)
  then show "strip s = []" unfolding strip_def by (simp only: rev.simps dropWhile.simps)
next
  assume "strip s = []"
  then have all: "\<forall>x\<in>set (dropWhile isspace s). isspace x"
    by (simp add: strip_def)
  have "dropWhile isspace s = []"
  proof (rule ccontr)
    assume ne: "dropWhile isspace s \<noteq> []"
    then have "\<not> isspace (hd (dropWhile isspace s))" by (rule hd_dropWhile)
    moreover have "hd (dropWhile isspace s) \<in> set (dropWhile isspace s)" using ne by simp
    ultimately show False using all by blast
  qed
  then show "list_all isspace s" by (simp add: dropWhile_eq_Nil_conv list_all_iff)
qed

lemma strip_trimmed:
  assumes "strip s \<noteq> []"
  shows "\<not> isspace (hd (strip s)) \<and> \<not> isspace (last (strip s))"
proof -
  let ?t = "dropWhile isspace s"
  let ?u = "dropWhile isspace (rev ?t)"
  have u: "?u \<noteq> []" using assms by (simp add: strip_def)
  have t: "?t \<noteq> []"
  proof
    assume "?t = []"
    then have "?u = []" by (simp only: rev.simps dropWhile.simps)
    with u show False by simp
  qed
  have "last (strip s) = hd ?u" unfolding strip_def by (rule last_rev)
  moreover have "\<not> isspace (hd ?u)" using u by (rule hd_dropWhile)
  moreover have "hd (strip s) = last ?u" unfolding strip_def by (rule hd_rev)
  moreover have "last ?u = last (rev ?t)" using u by (metis takeWhile_dropWhile_id last_appendR)
  moreover have "last (rev ?t) = hd ?t" by (rule last_rev)
  moreover have "\<not> isspace (hd ?t)" using t by (rule hd_dropWhile)
  ultimately show ?thesis by simp
qed

lemma split_join_char:
  "ps \<noteq> [] \<Longrightarrow> \<forall>p\<in>set ps. c \<notin> set p \<Longrightarrow> split [c] (join [c] ps) = ps"
proof (induction "[c]" ps rule: join.induct)
  case 1
  then show ?case by simp
next
  case (2 p)
  then show ?case by (simp add: split_char_notin)
next
  case (3 p q ps)
  have ih: "split [c] (join [c] (q # ps)) = q # ps" using 3 by simp
  have "c \<notin> set p" using 3 by simp
  then have "split [c] (p @ [c] @ join [c] (q # ps)) = p # split [c] (join [c] (q # ps))"
    by (induction p) auto
  then show ?case using ih by simp
qed

text \<open>
  Claim C9.  \<open>hashtag_list\<close> of a row without hashtags, or with the empty string, is
  the empty list.  Otherwise the stored string is cut at its commas (the pieces are
  the one comma-free list that joins back to the string), the pieces that consist of
  whitespace only are dropped, the others are stripped, and the order is kept; every
  entry is non-empty and has no whitespace at either end.  For \<open>a, b,, c \<close> the list
  is \<open>a\<close>, \<open>b\<close>, \<open>c\<close>.
\<close>

theorem hashtag_list_spec:
  "(hashtags v = None \<or> hashtags v = Some [] \<longrightarrow> hashtag_list v = []) \<and>
   (\<forall>h pieces. hashtags v = Some h \<and> pieces \<noteq> [] \<and> join '','' pieces = h \<and>
        (\<forall>p\<in>set pieces. CHR '','' \<notin> set p) \<longrightarrow>
      hashtag_list v = map strip (filter (\<lambda>p. \<not> list_all isspace p) pieces)) \<and>
   (\<forall>h. hashtags v = Some h \<longrightarrow>
      (\<exists>pieces. pieces \<noteq> [] \<and> join '','' pieces = h \<and> (\<forall>p\<in>set pieces. CHR '','' \<notin> set p))) \<and>
   (\<forall>t\<in>set (hashtag_list v). t \<noteq> [] \<and> \<not> isspace (hd t) \<and> \<not> isspace (last t)) \<and>
   (hashtags v = Some ''a, b,, c '' \<longrightarrow> hashtag_list v = [''a'', ''b'', ''c''])"
proof -
  have a: "hashtags v = None \<or> hashtags v = Some [] \<longrightarrow> hashtag_list v = []"
    by (auto simp: hashtag_list_def)
  have b: "\<forall>h pieces. hashtags v = Some h \<and> pieces \<noteq> [] \<and> join '','' pieces = h \<and>
        (\<forall>p\<in>set pieces. CHR '','' \<notin> set p) \<longrightarrow>
      hashtag_list v = map strip (filter (\<lambda>p. \<not> list_all isspace p) pieces)"
  proof (intro allI impI)
    fix h pieces
    assume h: "hashtags v = Some h \<and> pieces \<noteq> [] \<and> join '','' pieces = h \<and>
        (\<forall>p\<in>set pieces. CHR '','' \<notin> set p)"
    then have sp: "split '','' h = pieces" using split_join_char[of pieces "CHR '',''"] by auto
    show "hashtag_list v = map strip (filter (\<lambda>p. \<not> list_all isspace p) pieces)"
    proof (cases "h = []")
      case True
      then have "pieces = [[]]" using sp by simp
      then show ?thesis using h True by (simp add: hashtag_list_def)
    next
      case False
      then show ?thesis using h sp by (simp add: hashtag_list_def strip_Nil_iff)
    qed
  qed
  have c: "\<forall>h. hashtags v = Some h \<longrightarrow>
      (\<exists>pieces. pieces \<noteq> [] \<and> join '','' pieces = h \<and> (\<forall>p\<in>set pieces. CHR '','' \<notin> set p))"
  proof (intro allI impI)
    fix h
    have "split '','' h \<noteq> [] \<and> join '','' (split '','' h) = h \<and>
          (\<forall>p\<in>set (split '','' h). CHR '','' \<notin> set p)"
      using split_not_Nil[of "'',''" h] join_split[of "'',''" h] split_pieces_no_char[of _ "CHR '',''" h]
      by auto
    then show "\<exists>pieces. pieces \<noteq> [] \<and> join '','' pieces = h \<and> (\<forall>p\<in>set pieces. CHR '','' \<notin> set p)"
      by blast
  qed
  have d: "\<forall>t\<in>set (hashtag_list v). t \<noteq> [] \<and> \<not> isspace (hd t) \<and> \<not> isspace (last t)"
    using strip_trimmed by (auto simp: hashtag_list_def split: option.splits if_splits)
  have e: "hashtags v = Some ''a, b,, c '' \<longrightarrow> hashtag_list v = [''a'', ''b'', ''c'']"
    by (simp add: hashtag_list_def strip_def isspace_def)
  from a b c d e show ?thesis by blast
qed

theorem hashtag_list_spec_witness:
  "hashtags sample_video = Some ''a, b,, c '' \<and>
   join '','' [''a'', '' b'', [], '' c ''] = ''a, b,, c '' \<and>
   hashtag_list sample_video = map strip [''a'', '' b'', '' c ''] \<and>
   hashtag_list sample_video = [''a'', ''b'', ''c''] \<and>
   hashtag_list (sample_video\<lparr>hashtags := None\<rparr>) = [] \<and>
   hashtag_list (sample_video\<lparr>hashtags := Some []\<rparr>) = []"
proof -
  have h: "hashtags sample_video = Some ''a, b,, c ''" by (simp add: sample_video_def)
  have j: "join '','' [''a'', '' b'', [], '' c ''] = ''a, b,, c ''" by simp
  have n: "\<forall>p\<in>set [''a'', '' b'', [], '' c '']. CHR '','' \<notin> set p" by simp
  have f: "filter (\<lambda>p. \<not> list_all isspace p) [''a'', '' b'', [], '' c ''] = [''a'', '' b'', '' c '']"
    by (simp add: isspace_def)
  have 1: "hashtag_list sample_video = map strip [''a'', '' b'', '' c '']"
    using hashtag_list_spec[of sample_video] h j n f by (metis list.distinct(1))
  have 2: "hashtag_list sample_video = [''a'', ''b'', ''c'']"
    using hashtag_list_spec[of sample_video] h by blast
  have 3: "hashtag_list (sample_video\<lparr>hashtags := None\<rparr>) = []"
    using hashtag_list_spec[of "sample_video\<lparr>hashtags := None\<rparr>"] by simp
  have 4: "hashtag_list (sample_video\<lparr>hashtags := Some []\<rparr>) = []"
    using hashtag_list_spec[of "sample_video\<lparr>hashtags := Some []\<rparr>"] by simp
  from h j 1 2 3 4 show ?thesis by blast
qed

section \<open>Extraction of the embed id\<close>

lemma extract_with_e:
  "str_in ''/e/'' url \<Longrightarrow>
   extract_streamtape_id url = takeWhile (\<lambda>c. c \<noteq> CHR ''/'') (last (split ''/e/'' url))"
  using split_not_Nil[of "''/e/''" url] split_not_Nil[of "''/''" "last (split ''/e/'' url)"]
        hd_split_char[of "CHR ''/''" "last (split ''/e/'' url)"]
  by (auto simp: extract_streamtape_id_def extract_body_def index_last_def index_first_def
           split: list.splits)

lemma extract_without_e:
  "\<not> str_in ''/e/'' url \<Longrightarrow>
   extract_streamtape_id url = rev (takeWhile (\<lambda>c. c \<noteq> CHR ''/'') (rev url))"
proof -
  assume n: "\<not> str_in ''/e/'' url"
  let ?seg = "rev (takeWhile (\<lambda>c. c \<noteq> CHR ''/'') (rev url))"
  have "extract_streamtape_id url = replace ''/'' [] (last (split ''/'' url))"
    using n split_not_Nil[of "''/''" url]
    by (simp add: extract_streamtape_id_def extract_body_def index_last_def)
  also have "\<dots> = filter (\<lambda>x. x \<noteq> CHR ''/'') ?seg"
    by (simp only: replace_char_empty last_split_char)
  also have "\<dots> = ?seg"
  proof -
    have "\<forall>x\<in>set ?seg. x \<noteq> CHR ''/''"
      using set_takeWhileD[of _ "\<lambda>c. c \<noteq> CHR ''/''" "rev url"] by auto
    then show ?thesis by (simp only: filter_True)
  qed
  finally show ?thesis .
qed

text \<open>
  Claim C3 as stated fails for a URL with two occurrences of \<open>/e/\<close>: the id is taken
  after the later one, not after the first.
\<close>

theorem extract_streamtape_id_first_occurrence_counterexample:
  "str_in ''/e/'' ''https://streamtape.com/e/ABC/e/DEF'' \<and>
   extract_streamtape_id ''https://streamtape.com/e/ABC/e/DEF'' = ''DEF'' \<and>
   extract_streamtape_id ''https://streamtape.com/e/ABC/e/DEF'' \<noteq> ''ABC''"
  by (simp add: extract_streamtape_id_def extract_body_def index_last_def index_first_def)

text \<open>
  Claim C3, as amended.  Whenever \<open>extract_streamtape_id\<close> returns a non-empty id:
  for a URL containing \<open>/e/\<close> the id is the text up to the next slash after an
  occurrence of \<open>/e/\<close> that no further \<open>/e/\<close> follows (the last piece of the split),
  which is the component after the first occurrence when \<open>/e/\<close> occurs once; for a
  URL without \<open>/e/\<close> it is the text after the last slash, the whole URL when there
  is none.  The two example URLs both give \<open>ABC123\<close>.
\<close>

theorem extract_streamtape_id_rule:
  "(extract_streamtape_id url \<noteq> [] \<longrightarrow>
      (str_in ''/e/'' url \<longrightarrow>
         (\<exists>pre rest. url = pre @ ''/e/'' @ rest \<and> \<not> str_in ''/e/'' rest \<and>
            extract_streamtape_id url = takeWhile (\<lambda>c. c \<noteq> CHR ''/'') rest)) \<and>
      (\<not> str_in ''/e/'' url \<longrightarrow>
         extract_streamtape_id url = rev (takeWhile (\<lambda>c. c \<noteq> CHR ''/'') (rev url)))) \<and>
   (\<forall>pre rest. url = pre @ ''/e/'' @ rest \<and> \<not> str_in ''/e/'' (pre @ ''/e'') \<and>
        \<not> str_in ''/e/'' rest \<and> extract_streamtape_id url \<noteq> [] \<longrightarrow>
      extract_streamtape_id url = takeWhile (\<lambda>c. c \<noteq> CHR ''/'') rest) \<and>
   extract_streamtape_id ''https://streamtape.com/e/ABC123/'' = ''ABC123'' \<and>
   extract_streamtape_id ''https://streamtape.com/ABC123'' = ''ABC123''"
proof -
  have a: "str_in ''/e/'' url \<longrightarrow>
         (\<exists>pre rest. url = pre @ ''/e/'' @ rest \<and> \<not> str_in ''/e/'' rest \<and>
            extract_streamtape_id url = takeWhile (\<lambda>c. c \<noteq> CHR ''/'') rest)"
  proof
    assume occ: "str_in ''/e/'' url"
    let ?rest = "last (split ''/e/'' url)"
    have "url = join ''/e/'' (butlast (split ''/e/'' url)) @ ''/e/'' @ ?rest"
      using last_split_suffix[of "''/e/''" url] occ by simp
    moreover have "\<not> str_in ''/e/'' ?rest"
      using last_split_no_sep[of "''/e/''" url] by simp
    moreover have "extract_streamtape_id url = takeWhile (\<lambda>c. c \<noteq> CHR ''/'') ?rest"
      using occ by (rule extract_with_e)
    ultimately show "\<exists>pre rest. url = pre @ ''/e/'' @ rest \<and> \<not> str_in ''/e/'' rest \<and>
            extract_streamtape_id url = takeWhile (\<lambda>c. c \<noteq> CHR ''/'') rest"
      by blast
  qed
  have b: "\<not> str_in ''/e/'' url \<longrightarrow>
         extract_streamtape_id url = rev (takeWhile (\<lambda>c. c \<noteq> CHR ''/'') (rev url))"
    using extract_without_e by blast
  have c: "\<forall>pre rest. url = pre @ ''/e/'' @ rest \<and> \<not> str_in ''/e/'' (pre @ ''/e'') \<and>
        \<not> str_in ''/e/'' rest \<and> extract_streamtape_id url \<noteq> [] \<longrightarrow>
      extract_streamtape_id url = takeWhile (\<lambda>c. c \<noteq> CHR ''/'') rest"
  proof (intro allI impI)
    fix pre rest
    assume h: "url = pre @ ''/e/'' @ rest \<and> \<not> str_in ''/e/'' (pre @ ''/e'') \<and>
        \<not> str_in ''/e/'' rest \<and> extract_streamtape_id url \<noteq> []"
    have "split ''/e/'' (pre @ ''/e/'' @ rest) = pre # split ''/e/'' rest"
      using h by (intro split_first_occurrence) simp_all
    moreover have "split ''/e/'' rest = [rest]" using h by (simp add: split_no_sep)
    ultimately have l: "last (split ''/e/'' url) = rest" using h by simp
    have "str_in ''/e/'' url"
      unfolding str_in_sublist sublist_def using h by blast
    then show "extract_streamtape_id url = takeWhile (\<lambda>c. c \<noteq> CHR ''/'') rest"
      using extract_with_e[of url] l by simp
  qed
  have d: "extract_streamtape_id ''https://streamtape.com/e/ABC123/'' = ''ABC123''"
    by (simp add: extract_streamtape_id_def extract_body_def index_last_def index_first_def)
  have e: "extract_streamtape_id ''https://streamtape.com/ABC123'' = ''ABC123''"
    by (simp add: extract_streamtape_id_def extract_body_def index_last_def index_first_def
          replace_def)
  from a b c d e show ?thesis by blast
qed

theorem extract_streamtape_id_rule_witness:
  "str_in ''/e/'' ''https://streamtape.com/e/ABC/e/DEF'' \<and>
   extract_streamtape_id ''https://streamtape.com/e/ABC/e/DEF'' \<noteq> [] \<and>
   (\<exists>pre rest. ''https://streamtape.com/e/ABC/e/DEF'' = pre @ ''/e/'' @ rest \<and>
       \<not> str_in ''/e/'' rest \<and>
       extract_streamtape_id ''https://streamtape.com/e/ABC/e/DEF'' =
         takeWhile (\<lambda>c. c \<noteq> CHR ''/'') rest) \<and>
   \<not> str_in ''/e/'' ''https://streamtape.com/v/ABC123'' \<and>
   extract_streamtape_id ''https://streamtape.com/v/ABC123'' = ''ABC123'' \<and>
   \<not> str_in ''/e/'' (''https://streamtape.com'' @ ''/e'') \<and>
   \<not> str_in ''/e/'' ''XYZ/more'' \<and>
   extract_streamtape_id (''https://streamtape.com'' @ ''/e/'' @ ''XYZ/more'') = ''XYZ''"
proof -
  have 1: "str_in ''/e/'' ''https://streamtape.com/e/ABC/e/DEF''" by simp
  have 2: "extract_streamtape_id ''https://streamtape.com/e/ABC/e/DEF'' \<noteq> []"
    by (simp add: extract_streamtape_id_def extract_body_def index_last_def index_first_def)
  have 3: "\<not> str_in ''/e/'' ''https://streamtape.com/v/ABC123''" by simp
  have 4: "extract_streamtape_id ''https://streamtape.com/v/ABC123'' \<noteq> []"
    by (simp add: extract_streamtape_id_def extract_body_def index_last_def index_first_def
          replace_def)
  have 5: "\<not> str_in ''/e/'' (''https://streamtape.com'' @ ''/e'')" by simp
  have 6: "\<not> str_in ''/e/'' ''XYZ/more''" by simp
  have 7: "extract_streamtape_id (''https://streamtape.com'' @ ''/e/'' @ ''XYZ/more'') \<noteq> []"
    by (simp add: extract_streamtape_id_def extract_body_def index_last_def index_first_def)
  have A: "\<exists>pre rest. ''https://streamtape.com/e/ABC/e/DEF'' = pre @ ''/e/'' @ rest \<and>
       \<not> str_in ''/e/'' rest \<and>
       extract_streamtape_id ''https://streamtape.com/e/ABC/e/DEF'' =
         takeWhile (\<lambda>c. c \<noteq> CHR ''/'') rest"
    using extract_streamtape_id_rule[of "''https://streamtape.com/e/ABC/e/DEF''"] 1 2 by blast
  have B: "extract_streamtape_id ''https://streamtape.com/v/ABC123'' = ''ABC123''"
    using extract_streamtape_id_rule[of "''https://streamtape.com/v/ABC123''"] 3 4 by simp
  have C: "extract_streamtape_id (''https://streamtape.com'' @ ''/e/'' @ ''XYZ/more'') = ''XYZ''"
  proof -
    let ?u = "''https://streamtape.com'' @ ''/e/'' @ ''XYZ/more''"
    have "\<forall>pre rest. ?u = pre @ ''/e/'' @ rest \<and> \<not> str_in ''/e/'' (pre @ ''/e'') \<and>
        \<not> str_in ''/e/'' rest \<and> extract_streamtape_id ?u \<noteq> [] \<longrightarrow>
      extract_streamtape_id ?u = takeWhile (\<lambda>c. c \<noteq> CHR ''/'') rest"
      using extract_streamtape_id_rule[of ?u] by blast
    then have "extract_streamtape_id ?u = takeWhile (\<lambda>c. c \<noteq> CHR ''/'') ''XYZ/more''"
      using 5 6 7 by blast
    then show ?thesis by simp
  qed
  from 1 2 A 3 B 5 6 C show ?thesis by blast
qed

section \<open>Validation\<close>

lemma validation_errors_distinct:
  "title_required \<noteq> title_too_long" "title_required \<noteq> invalid_url"
  "title_too_long \<noteq> invalid_url"
  by (simp_all add: title_required_def title_too_long_def invalid_url_def)

lemma strip_Nil: "strip [] = []"
  by (simp add: strip_def)

lemma upload_video_success:
  "fst (upload_video e t d h u b w) = Inr r \<Longrightarrow>
   \<exists>p w1. save_uploaded_file e b w = (Inr p, w1) \<and> validate_form_input t u = Inr () \<and>
     commit_raises e = None \<and> refresh_raises e = None \<and> r = see_admin \<and>
     snd (upload_video e t d h u b w) =
       w1\<lparr>rows := rows w1 @
              [\<lparr>id_col = new_id (rows w1), title = strip t,
                description = strip_or_none d, hashtags = strip_or_none h,
                streamtape_url = strip u, streamtape_id = extract_streamtape_id u,
                banner_path = p, created_at = utcnow e, updated_at = utcnow e\<rparr>],
           effects := effects w1 @ [Committed]\<rparr>"
  by (auto simp: upload_video_def Let_def split: sum.splits prod.splits option.splits)

lemma save_uploaded_file_rows: "rows (snd (save_uploaded_file e f w)) = rows w"
  by (auto simp: save_uploaded_file_def Let_def split: option.splits write_outcome.splits)

lemma sample_upload:
  "upload_video sample_env ''  Clip '' None None ''https://streamtape.com/e/ABC123/''
     sample_banner sample_world =
   (Inr see_admin,
    \<lparr>rows = [sample_video,
        \<lparr>id_col = 2, title = ''Clip'', description = None, hashtags = None,
         streamtape_url = ''https://streamtape.com/e/ABC123/'', streamtape_id = ''ABC123'',
         banner_path = ''static/banners/u2.png'', created_at = 9, updated_at = 9\<rparr>],
     files = [''static/banners/old.jpg'' \<mapsto> ''OLD'', ''static/banners/u2.png'' \<mapsto> ''PNG''],
     effects = [FileWritten ''static/banners/u2.png'', Committed]\<rparr>)"
  by (simp add: upload_video_def validate_form_input_def strip_def isspace_def
        save_uploaded_file_def sample_banner_def sample_env_def sample_world_def is_image_def
        startswith_def new_file_path_def file_extension_def new_id_def sample_video_def
        strip_or_none_def extract_streamtape_id_def extract_body_def index_last_def
        index_first_def Let_def)

text \<open>
  Claim C5 as stated fails where title and URL are both invalid: the title is checked
  first, so an empty URL with an empty title raises the title error.
\<close>

theorem validation_url_error_counterexample:
  "validate_form_input [] [] = Inl title_required \<and>
   validate_form_input [] [] \<noteq> Inl invalid_url"
  by (simp add: validate_form_input_def title_required_def invalid_url_def)

text \<open>
  Claim C5, as amended.  Validation fails with a title error exactly when the stripped
  title is empty (\<open>Title is required\<close>) or longer than 255 characters
  (\<open>Title too long\<close>); it fails with the URL error exactly when the title is valid and
  the URL is empty or lacks \<open>streamtape.com\<close>.  An upload whose validation fails
  returns that error and leaves the world as it was; an upload that succeeds appends
  one row whose title is the stripped input title.
\<close>

theorem validation_contract:
  "(validate_form_input t u = Inl title_required \<longleftrightarrow> strip t = []) \<and>
   (validate_form_input t u = Inl title_too_long \<longleftrightarrow> length (strip t) > 255) \<and>
   (validate_form_input t u = Inl invalid_url \<longleftrightarrow>
      strip t \<noteq> [] \<and> length (strip t) \<le> 255 \<and> (u = [] \<or> \<not> str_in ''streamtape.com'' u)) \<and>
   (\<forall>err. validate_form_input t u = Inl err \<longrightarrow> upload_video e t d h u b w = (Inl err, w)) \<and>
   (fst (upload_video e t d h u b w) = Inr see_admin \<longrightarrow>
      (\<exists>v. rows (snd (upload_video e t d h u b w)) = rows w @ [v] \<and> title v = strip t))"
proof -
  have a: "validate_form_input t u = Inl title_required \<longleftrightarrow> strip t = []"
    using validation_errors_distinct by (auto simp: validate_form_input_def strip_Nil)
  have b: "validate_form_input t u = Inl title_too_long \<longleftrightarrow> length (strip t) > 255"
    using validation_errors_distinct by (auto simp: validate_form_input_def strip_Nil)
  have c: "validate_form_input t u = Inl invalid_url \<longleftrightarrow>
      strip t \<noteq> [] \<and> length (strip t) \<le> 255 \<and> (u = [] \<or> \<not> str_in ''streamtape.com'' u)"
    using validation_errors_distinct by (auto simp: validate_form_input_def strip_Nil)
  have d: "\<forall>err. validate_form_input t u = Inl err \<longrightarrow> upload_video e t d h u b w = (Inl err, w)"
    by (simp add: upload_video_def)
  have e: "fst (upload_video e t d h u b w) = Inr see_admin \<longrightarrow>
      (\<exists>v. rows (snd (upload_video e t d h u b w)) = rows w @ [v] \<and> title v = strip t)"
  proof
    assume "fst (upload_video e t d h u b w) = Inr see_admin"
    from upload_video_success[OF this] obtain p w1 where
      s: "save_uploaded_file e b w = (Inr p, w1)" and
      r: "snd (upload_video e t d h u b w) =
       w1\<lparr>rows := rows w1 @
              [\<lparr>id_col = new_id (rows w1), title = strip t,
                description = strip_or_none d, hashtags = strip_or_none h,
                streamtape_url = strip u, streamtape_id = extract_streamtape_id u,
                banner_path = p, created_at = utcnow e, updated_at = utcnow e\<rparr>],
           effects := effects w1 @ [Committed]\<rparr>"
      by blast
    have "rows w1 = rows w" using save_uploaded_file_rows[of e b w] s by simp
    then show "\<exists>v. rows (snd (upload_video e t d h u b w)) = rows w @ [v] \<and> title v = strip t"
      using r by simp
  qed
  from a b c d e show ?thesis by blast
qed

theorem validation_contract_witness:
  "validate_form_input [] ''https://streamtape.com/e/ABC123/'' = Inl title_required \<and>
   upload_video sample_env [] None None ''https://streamtape.com/e/ABC123/'' sample_banner
     sample_world = (Inl title_required, sample_world) \<and>
   validate_form_input ''Clip'' ''https://example.com/x'' = Inl invalid_url \<and>
   upload_video sample_env ''Clip'' None None ''https://example.com/x'' sample_banner
     sample_world = (Inl invalid_url, sample_world) \<and>
   fst (upload_video sample_env ''  Clip '' None None ''https://streamtape.com/e/ABC123/''
     sample_banner sample_world) = Inr see_admin \<and>
   (\<exists>v. rows (snd (upload_video sample_env ''  Clip '' None None
            ''https://streamtape.com/e/ABC123/'' sample_banner sample_world)) =
          rows sample_world @ [v] \<and> title v = ''Clip'')"
proof -
  have s: "strip ''  Clip '' = ''Clip''" "strip ''Clip'' = ''Clip''"
    by (simp_all add: strip_def isspace_def)
  have 1: "validate_form_input [] ''https://streamtape.com/e/ABC123/'' = Inl title_required"
    using validation_contract[of "[]" "''https://streamtape.com/e/ABC123/''"]
    by (simp add: strip_Nil)
  have 2: "upload_video sample_env [] None None ''https://streamtape.com/e/ABC123/'' sample_banner
     sample_world = (Inl title_required, sample_world)"
    using validation_contract[of "[]" "''https://streamtape.com/e/ABC123/''" sample_env None None
        sample_banner sample_world] 1 by blast
  have 3: "validate_form_input ''Clip'' ''https://example.com/x'' = Inl invalid_url"
    using validation_contract[of "''Clip''" "''https://example.com/x''"] s by simp
  have 4: "upload_video sample_env ''Clip'' None None ''https://example.com/x'' sample_banner
     sample_world = (Inl invalid_url, sample_world)"
    using validation_contract[of "''Clip''" "''https://example.com/x''" sample_env None None
        sample_banner sample_world] 3 by blast
  have 5: "fst (upload_video sample_env ''  Clip '' None None ''https://streamtape.com/e/ABC123/''
     sample_banner sample_world) = Inr see_admin"
    by (simp add: sample_upload)
  have 6: "\<exists>v. rows (snd (upload_video sample_env ''  Clip '' None None
            ''https://streamtape.com/e/ABC123/'' sample_banner sample_world)) =
          rows sample_world @ [v] \<and> title v = ''Clip''"
    using validation_contract[of "''  Clip ''" "''https://streamtape.com/e/ABC123/''" sample_env
        None None sample_banner sample_world] 5 s by simp
  from 1 2 3 4 5 6 show ?thesis by blast
qed

section \<open>Upload: compensation after a failed commit\<close>

lemma save_uploaded_file_Inr:
  "save_uploaded_file e f w = (Inr p, w1) \<Longrightarrow>
   p \<noteq> [] \<and> w1 = w\<lparr>files := (files w)(p \<mapsto> content f), effects := effects w @ [FileWritten p]\<rparr>"
  by (auto simp: save_uploaded_file_def Let_def new_file_path_def
           split: option.splits write_outcome.splits if_splits)

lemma sample_save:
  "save_uploaded_file (sample_env\<lparr>commit_raises := Some ''db down''\<rparr>) sample_banner sample_world =
   (Inr ''static/banners/u2.png'',
    sample_world\<lparr>files := (files sample_world)(''static/banners/u2.png'' \<mapsto> ''PNG''),
                 effects := effects sample_world @ [FileWritten ''static/banners/u2.png'']\<rparr>)"
  by (simp add: save_uploaded_file_def sample_banner_def sample_env_def is_image_def
        startswith_def new_file_path_def file_extension_def Let_def)

lemma sample_validate:
  "validate_form_input ''Clip'' ''https://streamtape.com/e/ABC123/'' = Inr ()"
  by (simp add: validate_form_input_def strip_def isspace_def)

text \<open>
  Claim C2 as stated fails when \<open>os.remove\<close> raises: \<open>delete_file_safely\<close> swallows
  the exception, the 500 error is raised, and the banner written for the failed
  upload is still on storage.
\<close>

theorem upload_compensation_remove_fails_counterexample:
  "fst (upload_video (sample_env\<lparr>commit_raises := Some ''db down'', remove_raises := True\<rparr>)
          ''Clip'' None None ''https://streamtape.com/e/ABC123/'' sample_banner sample_world) =
     Inl (failed_to_upload ''db down'') \<and>
   files (snd (upload_video (sample_env\<lparr>commit_raises := Some ''db down'', remove_raises := True\<rparr>)
          ''Clip'' None None ''https://streamtape.com/e/ABC123/'' sample_banner sample_world))
     ''static/banners/u2.png'' = Some ''PNG''"
  by (simp add: upload_video_def sample_validate save_uploaded_file_def sample_banner_def
        sample_env_def is_image_def startswith_def new_file_path_def file_extension_def Let_def
        delete_file_safely_def)

text \<open>
  Claim C2, as amended.  For an upload that passes validation, whose banner is written
  and whose commit raises: the operation fails with the 500 error carrying the
  exception's text, the table is unchanged, and the deletion of the written banner is
  attempted after the failed commit and before the error is raised.  When \<open>os.remove\<close>
  does not raise, the banner is no longer on storage; when it raises, the failure is
  swallowed.
\<close>

theorem upload_compensation:
  "validate_form_input t u = Inr () \<and> save_uploaded_file e b w = (Inr p, w1) \<and>
   commit_raises e = Some msg \<longrightarrow>
     fst (upload_video e t d h u b w) = Inl (failed_to_upload msg) \<and>
     rows (snd (upload_video e t d h u b w)) = rows w \<and>
     (\<not> remove_raises e \<longrightarrow>
        files (snd (upload_video e t d h u b w)) p = None \<and>
        effects (snd (upload_video e t d h u b w)) =
          effects w @ [FileWritten p, CommitFailed, FileRemoved p]) \<and>
     (remove_raises e \<longrightarrow>
        effects (snd (upload_video e t d h u b w)) =
          effects w @ [FileWritten p, CommitFailed, RemoveFailed p])"
proof
  assume h: "validate_form_input t u = Inr () \<and> save_uploaded_file e b w = (Inr p, w1) \<and>
   commit_raises e = Some msg"
  then have w1: "p \<noteq> []"
    "w1 = w\<lparr>files := (files w)(p \<mapsto> content b), effects := effects w @ [FileWritten p]\<rparr>"
    using save_uploaded_file_Inr[of e b w p w1] by simp_all
  have r: "upload_video e t d h u b w =
     (Inl (failed_to_upload msg),
      delete_file_safely e p (w1\<lparr>effects := effects w1 @ [CommitFailed]\<rparr>))"
    using h by (simp add: upload_video_def)
  show "fst (upload_video e t d h u b w) = Inl (failed_to_upload msg) \<and>
     rows (snd (upload_video e t d h u b w)) = rows w \<and>
     (\<not> remove_raises e \<longrightarrow>
        files (snd (upload_video e t d h u b w)) p = None \<and>
        effects (snd (upload_video e t d h u b w)) =
          effects w @ [FileWritten p, CommitFailed, FileRemoved p]) \<and>
     (remove_raises e \<longrightarrow>
        effects (snd (upload_video e t d h u b w)) =
          effects w @ [FileWritten p, CommitFailed, RemoveFailed p])"
    unfolding r using w1 by (simp add: delete_file_safely_def)
qed

theorem upload_compensation_witness:
  "validate_form_input ''Clip'' ''https://streamtape.com/e/ABC123/'' = Inr () \<and>
   fst (save_uploaded_file (sample_env\<lparr>commit_raises := Some ''db down''\<rparr>) sample_banner
          sample_world) = Inr ''static/banners/u2.png'' \<and>
   fst (upload_video (sample_env\<lparr>commit_raises := Some ''db down''\<rparr>) ''Clip'' None None
          ''https://streamtape.com/e/ABC123/'' sample_banner sample_world) =
     Inl (failed_to_upload ''db down'') \<and>
   rows (snd (upload_video (sample_env\<lparr>commit_raises := Some ''db down''\<rparr>) ''Clip'' None None
          ''https://streamtape.com/e/ABC123/'' sample_banner sample_world)) = [sample_video] \<and>
   files (snd (upload_video (sample_env\<lparr>commit_raises := Some ''db down''\<rparr>) ''Clip'' None None
          ''https://streamtape.com/e/ABC123/'' sample_banner sample_world))
     ''static/banners/u2.png'' = None \<and>
   effects (snd (upload_video (sample_env\<lparr>commit_raises := Some ''db down''\<rparr>) ''Clip'' None None
          ''https://streamtape.com/e/ABC123/'' sample_banner sample_world)) =
     [FileWritten ''static/banners/u2.png'', CommitFailed, FileRemoved ''static/banners/u2.png'']"
proof -
  let ?e = "sample_env\<lparr>commit_raises := Some ''db down''\<rparr>"
  have c: "commit_raises ?e = Some ''db down''" "\<not> remove_raises ?e"
    by (simp_all add: sample_env_def)
  have w: "rows sample_world = [sample_video]" "effects sample_world = []"
    by (simp_all add: sample_world_def)
  show ?thesis
    using upload_compensation[of "''Clip''" "''https://streamtape.com/e/ABC123/''" ?e
        sample_banner sample_world "''static/banners/u2.png''" _ "''db down''" None None]
      sample_validate sample_save c w
    by simp
qed

section \<open>Facts about the operations on the world\<close>

lemma query_first_id: "query_first k w = Some v \<Longrightarrow> id_col v = k"
  unfolding query_first_def by (rule find_Some_id)

lemma find_map_replace:
  "id_col V = k \<Longrightarrow>
   find (\<lambda>v. id_col v = k) (map (\<lambda>r. if id_col r = k then V else r) rs) =
   (case find (\<lambda>v. id_col v = k) rs of None \<Rightarrow> None | Some x \<Rightarrow> Some V)"
  by (induction rs) auto

lemma find_filter_out: "find (\<lambda>v. id_col v = k) (filter (\<lambda>r. id_col r \<noteq> k) rs) = None"
  by (induction rs) auto

lemma delete_file_safely_rows: "rows (delete_file_safely e p w) = rows w"
  by (simp add: delete_file_safely_def)

lemma delete_file_safely_other: "q \<noteq> p \<Longrightarrow> files (delete_file_safely e p w) q = files w q"
  by (simp add: delete_file_safely_def)

lemma delete_file_safely_removed:
  "p \<noteq> [] \<Longrightarrow> \<not> remove_raises e \<Longrightarrow> files (delete_file_safely e p w) p = None"
  by (auto simp: delete_file_safely_def)

lemma commit_update_files: "files (snd (commit_update e video w)) = files w"
  by (simp add: commit_update_def split: option.splits)

lemma commit_update_effects:
  "effects (snd (commit_update e video w)) =
   effects w @ [if commit_raises e = None then Committed else CommitFailed]"
  by (simp add: commit_update_def split: option.splits)

lemma commit_update_query:
  assumes "id_col video = k" and "query_first k w = Some v0"
  shows "query_first k (snd (commit_update e video w)) =
         Some (if commit_raises e = None then video\<lparr>updated_at := utcnow e\<rparr> else v0)"
  using assms find_map_replace[of "video\<lparr>updated_at := utcnow e\<rparr>" k "rows w"]
  by (simp add: commit_update_def query_first_def split: option.splits)

lemma save_uploaded_file_query:
  "query_first k (snd (save_uploaded_file e f w)) = query_first k w"
  by (simp add: query_first_def save_uploaded_file_rows)

lemma delete_file_safely_query:
  "query_first k (delete_file_safely e p w) = query_first k w"
  by (simp add: query_first_def delete_file_safely_rows)

lemma sample_query: "query_first 1 sample_world = Some sample_video"
  by (simp add: query_first_def sample_world_def sample_video_def)

lemma sample_video_fields:
  "banner_path sample_video = ''static/banners/old.jpg''" "id_col sample_video = 1"
  "created_at sample_video = 5"
  by (simp_all add: sample_video_def)

lemma sample_save_write_failed:
  "save_uploaded_file (sample_env\<lparr>write_result := WriteFailed ''disk full'' ''PN''\<rparr>)
     sample_banner sample_world =
   (Inl (failed_to_save ''disk full''),
    sample_world\<lparr>files := (files sample_world)(''static/banners/u2.png'' \<mapsto> ''PN'')\<rparr>)"
  by (simp add: save_uploaded_file_def sample_banner_def sample_env_def is_image_def
        startswith_def new_file_path_def file_extension_def Let_def)

lemma sample_validate2:
  "validate_form_input ''Clip 2'' ''https://streamtape.com/e/ABC123/'' = Inr ()"
  by (simp add: validate_form_input_def strip_def isspace_def)


section \<open>Update: what stays as it was\<close>

lemma update_video_no_banner:
  assumes "new_banner b = None"
  shows "update_video e k t d h u b w =
     (case query_first k w of
        None \<Rightarrow> (Inl not_found, w)
      | Some v0 \<Rightarrow>
          (case validate_form_input t u of
             Inl err \<Rightarrow> (Inl err, w)
           | Inr _ \<Rightarrow>
               commit_update e
                 (v0\<lparr>title := strip t, description := strip_or_none d,
                     hashtags := strip_or_none h, streamtape_url := strip u,
                     streamtape_id := extract_streamtape_id u\<rparr>) w))"
  using assms by (simp add: update_video_def Let_def split: option.splits sum.splits)

lemma update_video_keeps_id_created:
  assumes q: "query_first k w = Some v"
  shows "\<exists>v'. query_first k (snd (update_video e k t d h u b w)) = Some v' \<and>
          id_col v' = id_col v \<and> created_at v' = created_at v"
proof -
  have k: "id_col v = k" using q by (rule query_first_id)
  let ?video = "v\<lparr>title := strip t, description := strip_or_none d,
                     hashtags := strip_or_none h, streamtape_url := strip u,
                     streamtape_id := extract_streamtape_id u\<rparr>"
  show ?thesis
  proof (cases "validate_form_input t u")
    case (Inl err)
    then show ?thesis using q by (simp add: update_video_def)
  next
    case (Inr x)
    show ?thesis
    proof (cases "new_banner b")
      case None
      have "query_first k (snd (commit_update e ?video w)) =
            Some (if commit_raises e = None then ?video\<lparr>updated_at := utcnow e\<rparr> else v)"
        using k q by (intro commit_update_query) simp_all
      then show ?thesis using q Inr None by (simp add: update_video_def Let_def)
    next
      case (Some f)
      obtain res w1 where s: "save_uploaded_file e f w = (res, w1)"
        by (cases "save_uploaded_file e f w")
      have q1: "query_first k w1 = Some v"
        using save_uploaded_file_query[of k e f w] s q by simp
      show ?thesis
      proof (cases res)
        case (Inl err)
        then show ?thesis using q q1 Inr Some s by (simp add: update_video_def Let_def)
      next
        case (Inr np)
        let ?w2 = "if banner_path v \<noteq> np then delete_file_safely e (banner_path v) w1 else w1"
        have q2: "query_first k ?w2 = Some v" using q1 by (simp add: delete_file_safely_query)
        have "query_first k (snd (commit_update e (?video\<lparr>banner_path := np\<rparr>) ?w2)) =
            Some (if commit_raises e = None
                  then ?video\<lparr>banner_path := np, updated_at := utcnow e\<rparr> else v)"
          using k q2 commit_update_query[of "?video\<lparr>banner_path := np\<rparr>" k ?w2 v e] by simp
        moreover have "update_video e k t d h u b w =
              commit_update e (?video\<lparr>banner_path := np\<rparr>) ?w2"
          using q \<open>validate_form_input t u = Inr x\<close> Some s Inr
          by (simp add: update_video_def Let_def)
        ultimately show ?thesis by simp
      qed
    qed
  qed
qed

text \<open>
  Claim C6.  An update that supplies no new banner (none at all, or one without a file
  name) leaves the files on storage as they were, performs no file deletion (the only
  effects it adds are the commit or its failure), and leaves the \<open>banner_path\<close> of the
  row unchanged.  Every update of an existing row, whatever its outcome, leaves the
  row in the table with the same \<open>id\<close> and the same \<open>created_at\<close>.
\<close>

theorem update_frame:
  "(new_banner b = None \<longrightarrow>
      files (snd (update_video e k t d h u b w)) = files w \<and>
      (\<exists>evs. effects (snd (update_video e k t d h u b w)) = effects w @ evs \<and>
             set evs \<subseteq> {Committed, CommitFailed}) \<and>
      (\<forall>v. query_first k w = Some v \<longrightarrow>
         (\<exists>v'. query_first k (snd (update_video e k t d h u b w)) = Some v' \<and>
               banner_path v' = banner_path v))) \<and>
   (\<forall>v. query_first k w = Some v \<longrightarrow>
      (\<exists>v'. query_first k (snd (update_video e k t d h u b w)) = Some v' \<and>
            id_col v' = id_col v \<and> created_at v' = created_at v))"
proof -
  have a: "new_banner b = None \<longrightarrow> files (snd (update_video e k t d h u b w)) = files w"
    by (auto simp: update_video_no_banner commit_update_files split: option.splits sum.splits)
  have b: "new_banner b = None \<longrightarrow>
      (\<exists>evs. effects (snd (update_video e k t d h u b w)) = effects w @ evs \<and>
             set evs \<subseteq> {Committed, CommitFailed})"
  proof
    assume n: "new_banner b = None"
    have "effects (snd (update_video e k t d h u b w)) = effects w @ [] \<or>
          effects (snd (update_video e k t d h u b w)) = effects w @ [Committed] \<or>
          effects (snd (update_video e k t d h u b w)) = effects w @ [CommitFailed]"
      by (auto simp: update_video_no_banner[OF n] commit_update_effects
               split: option.splits sum.splits)
    then show "\<exists>evs. effects (snd (update_video e k t d h u b w)) = effects w @ evs \<and>
             set evs \<subseteq> {Committed, CommitFailed}"
      by (metis empty_set empty_subsetI insert_subset list.simps(15) insertI1 insertI2)
  qed
  have c: "new_banner b = None \<longrightarrow> (\<forall>v. query_first k w = Some v \<longrightarrow>
         (\<exists>v'. query_first k (snd (update_video e k t d h u b w)) = Some v' \<and>
               banner_path v' = banner_path v))"
  proof (intro impI allI)
    fix v
    assume n: "new_banner b = None" and q: "query_first k w = Some v"
    have k: "id_col v = k" using q by (rule query_first_id)
    let ?video = "v\<lparr>title := strip t, description := strip_or_none d,
                     hashtags := strip_or_none h, streamtape_url := strip u,
                     streamtape_id := extract_streamtape_id u\<rparr>"
    have "query_first k (snd (commit_update e ?video w)) =
            Some (if commit_raises e = None then ?video\<lparr>updated_at := utcnow e\<rparr> else v)"
      using k q by (intro commit_update_query) simp_all
    then show "\<exists>v'. query_first k (snd (update_video e k t d h u b w)) = Some v' \<and>
               banner_path v' = banner_path v"
      using q by (auto simp: update_video_no_banner[OF n] split: sum.splits)
  qed
  have d: "\<forall>v. query_first k w = Some v \<longrightarrow>
      (\<exists>v'. query_first k (snd (update_video e k t d h u b w)) = Some v' \<and>
            id_col v' = id_col v \<and> created_at v' = created_at v)"
    using update_video_keeps_id_created by blast
  from a b c d show ?thesis by blast
qed

theorem update_frame_witness:
  "new_banner None = None \<and> query_first 1 sample_world = Some sample_video \<and>
   files (snd (update_video sample_env 1 ''Clip 2'' None None
           ''https://streamtape.com/e/ABC123/'' None sample_world)) = files sample_world \<and>
   (\<exists>v'. query_first 1 (snd (update_video sample_env 1 ''Clip 2'' None None
           ''https://streamtape.com/e/ABC123/'' None sample_world)) = Some v' \<and>
         banner_path v' = ''static/banners/old.jpg'' \<and> id_col v' = 1 \<and> created_at v' = 5)"
proof -
  let ?r = "update_video sample_env 1 ''Clip 2'' None None
           ''https://streamtape.com/e/ABC123/'' None sample_world"
  have n: "new_banner None = None" by (simp add: new_banner_def)
  note f = update_frame[of None sample_env 1 "''Clip 2''" None None
      "''https://streamtape.com/e/ABC123/''" sample_world]
  have 1: "files (snd ?r) = files sample_world" using f n by blast
  obtain v1 where v1: "query_first 1 (snd ?r) = Some v1"
      "banner_path v1 = banner_path sample_video"
    using f n sample_query by blast
  obtain v2 where v2: "query_first 1 (snd ?r) = Some v2"
      "id_col v2 = id_col sample_video" "created_at v2 = created_at sample_video"
    using f sample_query by blast
  have "v1 = v2" using v1(1) v2(1) by simp
  then have "query_first 1 (snd ?r) = Some v1 \<and>
         banner_path v1 = ''static/banners/old.jpg'' \<and> id_col v1 = 1 \<and> created_at v1 = 5"
    using v1 v2 sample_video_fields by simp
  then show ?thesis using n sample_query 1 by blast
qed


section \<open>Update: a failing file store\<close>

lemma save_uploaded_file_Inl:
  "save_uploaded_file e f w = (Inl err, w1) \<Longrightarrow> filename f = Some name \<Longrightarrow>
   rows w1 = rows w \<and> effects w1 = effects w \<and>
   (\<forall>p. p \<noteq> new_file_path e name \<longrightarrow> files w1 p = files w p)"
  by (auto simp: save_uploaded_file_def Let_def split: write_outcome.splits if_splits)

text \<open>
  Claim C7.  For an update of an existing row that passes validation and supplies a
  new banner: when \<open>save_uploaded_file\<close> fails, the update fails with that same error,
  the table is unchanged, no deletion or commit is performed, and every file that
  was on storage, the existing banner among them, is untouched.  The name generated
  for the new banner is taken to be fresh (no file of that name exists), as
  \<open>uuid4\<close> provides.
\<close>

theorem update_store_failure:
  "query_first k w = Some v \<and> validate_form_input t u = Inr () \<and> new_banner b = Some f \<and>
   filename f = Some name \<and> files w (new_file_path e name) = None \<and>
   save_uploaded_file e f w = (Inl err, w1) \<longrightarrow>
     fst (update_video e k t d h u b w) = Inl err \<and>
     rows (snd (update_video e k t d h u b w)) = rows w \<and>
     effects (snd (update_video e k t d h u b w)) = effects w \<and>
     (\<forall>p. files w p \<noteq> None \<longrightarrow> files (snd (update_video e k t d h u b w)) p = files w p)"
proof
  assume h: "query_first k w = Some v \<and> validate_form_input t u = Inr () \<and>
   new_banner b = Some f \<and> filename f = Some name \<and> files w (new_file_path e name) = None \<and>
   save_uploaded_file e f w = (Inl err, w1)"
  then have r: "update_video e k t d h u b w = (Inl err, w1)"
    by (simp add: update_video_def Let_def)
  have s: "rows w1 = rows w \<and> effects w1 = effects w \<and>
   (\<forall>p. p \<noteq> new_file_path e name \<longrightarrow> files w1 p = files w p)"
    using h save_uploaded_file_Inl[of e f w err w1 name] by blast
  have "\<forall>p. files w p \<noteq> None \<longrightarrow> files w1 p = files w p"
    using s h by metis
  then show "fst (update_video e k t d h u b w) = Inl err \<and>
     rows (snd (update_video e k t d h u b w)) = rows w \<and>
     effects (snd (update_video e k t d h u b w)) = effects w \<and>
     (\<forall>p. files w p \<noteq> None \<longrightarrow> files (snd (update_video e k t d h u b w)) p = files w p)"
    unfolding r using s by simp
qed

theorem update_store_failure_witness:
  "query_first 1 sample_world = Some sample_video \<and>
   validate_form_input ''Clip 2'' ''https://streamtape.com/e/ABC123/'' = Inr () \<and>
   new_banner (Some sample_banner) = Some sample_banner \<and>
   files sample_world ''static/banners/u2.png'' = None \<and>
   fst (save_uploaded_file (sample_env\<lparr>write_result := WriteFailed ''disk full'' ''PN''\<rparr>)
     sample_banner sample_world) = Inl (failed_to_save ''disk full'') \<and>
   fst (update_video (sample_env\<lparr>write_result := WriteFailed ''disk full'' ''PN''\<rparr>) 1 ''Clip 2''
     None None ''https://streamtape.com/e/ABC123/'' (Some sample_banner) sample_world) =
     Inl (failed_to_save ''disk full'') \<and>
   rows (snd (update_video (sample_env\<lparr>write_result := WriteFailed ''disk full'' ''PN''\<rparr>) 1
     ''Clip 2'' None None ''https://streamtape.com/e/ABC123/'' (Some sample_banner)
     sample_world)) = [sample_video] \<and>
   files (snd (update_video (sample_env\<lparr>write_result := WriteFailed ''disk full'' ''PN''\<rparr>) 1
     ''Clip 2'' None None ''https://streamtape.com/e/ABC123/'' (Some sample_banner)
     sample_world)) ''static/banners/old.jpg'' = Some ''OLD''"
proof -
  let ?e = "sample_env\<lparr>write_result := WriteFailed ''disk full'' ''PN''\<rparr>"
  have b: "new_banner (Some sample_banner) = Some sample_banner"
          "filename sample_banner = Some ''new.png''"
    by (simp_all add: new_banner_def sample_banner_def)
  have p: "new_file_path ?e ''new.png'' = ''static/banners/u2.png''"
    by (simp add: new_file_path_def file_extension_def sample_env_def)
  have fr: "files sample_world ''static/banners/u2.png'' = None"
           "files sample_world ''static/banners/old.jpg'' = Some ''OLD''"
           "rows sample_world = [sample_video]"
    by (simp_all add: sample_world_def)
  note t = update_store_failure[of 1 sample_world sample_video "''Clip 2''"
      "''https://streamtape.com/e/ABC123/''" "Some sample_banner" sample_banner "''new.png''" ?e
      "failed_to_save ''disk full''" _ None None]
  show ?thesis
    using t sample_query sample_validate2 b p fr sample_save_write_failed by simp
qed


section \<open>Delete\<close>

text \<open>
  Claim C8 as stated fails when \<open>db.commit()\<close> raises: the delete of an existing id
  then fails with the 500 error and the row stays in the table (its banner has
  already been removed).
\<close>

theorem delete_commit_fails_counterexample:
  "query_first 1 sample_world = Some sample_video \<and>
   fst (delete_video (sample_env\<lparr>commit_raises := Some ''db down''\<rparr>) 1 sample_world) =
     Inl (failed_to_delete ''db down'') \<and>
   query_first 1 (snd (delete_video (sample_env\<lparr>commit_raises := Some ''db down''\<rparr>) 1
     sample_world)) = Some sample_video \<and>
   files (snd (delete_video (sample_env\<lparr>commit_raises := Some ''db down''\<rparr>) 1
     sample_world)) ''static/banners/old.jpg'' = None"
  by (simp add: delete_video_def query_first_def delete_file_safely_def sample_env_def
        sample_world_def sample_video_def Let_def)

text \<open>
  Claim C8, as amended.  Deleting an id that has no row fails with the 404 error and
  leaves table and storage as they were.  Deleting an existing id, the commit going
  through, succeeds, removes the row, removes the banner file unless \<open>os.remove\<close>
  raises, and touches no other file; when the commit raises, the delete fails with
  the 500 error and the table is unchanged.  Whether \<open>os.remove\<close> raises or not makes
  no difference to the response and to the table: a failing file deletion does not
  keep the row from being deleted.
\<close>

theorem delete_semantics:
  "(query_first k w = None \<longrightarrow> delete_video e k w = (Inl not_found, w)) \<and>
   (\<forall>v. query_first k w = Some v \<and> commit_raises e = None \<longrightarrow>
      fst (delete_video e k w) = Inr see_admin \<and>
      rows (snd (delete_video e k w)) = filter (\<lambda>r. id_col r \<noteq> k) (rows w) \<and>
      query_first k (snd (delete_video e k w)) = None \<and>
      (banner_path v \<noteq> [] \<and> \<not> remove_raises e \<longrightarrow>
         files (snd (delete_video e k w)) (banner_path v) = None) \<and>
      (\<forall>p. p \<noteq> banner_path v \<longrightarrow> files (snd (delete_video e k w)) p = files w p)) \<and>
   (\<forall>v msg. query_first k w = Some v \<and> commit_raises e = Some msg \<longrightarrow>
      fst (delete_video e k w) = Inl (failed_to_delete msg) \<and>
      rows (snd (delete_video e k w)) = rows w) \<and>
   fst (delete_video (e\<lparr>remove_raises := True\<rparr>) k w) =
     fst (delete_video (e\<lparr>remove_raises := False\<rparr>) k w) \<and>
   rows (snd (delete_video (e\<lparr>remove_raises := True\<rparr>) k w)) =
     rows (snd (delete_video (e\<lparr>remove_raises := False\<rparr>) k w))"
proof -
  have a: "query_first k w = None \<longrightarrow> delete_video e k w = (Inl not_found, w)"
    by (simp add: delete_video_def)
  have b: "\<forall>v. query_first k w = Some v \<and> commit_raises e = None \<longrightarrow>
      fst (delete_video e k w) = Inr see_admin \<and>
      rows (snd (delete_video e k w)) = filter (\<lambda>r. id_col r \<noteq> k) (rows w) \<and>
      query_first k (snd (delete_video e k w)) = None \<and>
      (banner_path v \<noteq> [] \<and> \<not> remove_raises e \<longrightarrow>
         files (snd (delete_video e k w)) (banner_path v) = None) \<and>
      (\<forall>p. p \<noteq> banner_path v \<longrightarrow> files (snd (delete_video e k w)) p = files w p)"
  proof (intro allI impI)
    fix v
    assume h: "query_first k w = Some v \<and> commit_raises e = None"
    then have k: "id_col v = k" using query_first_id by blast
    let ?w1 = "delete_file_safely e (banner_path v) w"
    have r: "delete_video e k w =
      (Inr see_admin,
       ?w1\<lparr>rows := filter (\<lambda>r. id_col r \<noteq> k) (rows ?w1),
           effects := effects ?w1 @ [Committed]\<rparr>)"
      using h k by (simp add: delete_video_def Let_def)
    show "fst (delete_video e k w) = Inr see_admin \<and>
      rows (snd (delete_video e k w)) = filter (\<lambda>r. id_col r \<noteq> k) (rows w) \<and>
      query_first k (snd (delete_video e k w)) = None \<and>
      (banner_path v \<noteq> [] \<and> \<not> remove_raises e \<longrightarrow>
         files (snd (delete_video e k w)) (banner_path v) = None) \<and>
      (\<forall>p. p \<noteq> banner_path v \<longrightarrow> files (snd (delete_video e k w)) p = files w p)"
      unfolding r
      by (simp add: query_first_def find_filter_out delete_file_safely_removed
            delete_file_safely_other delete_file_safely_rows)
  qed
  have b': "\<forall>v msg. query_first k w = Some v \<and> commit_raises e = Some msg \<longrightarrow>
      fst (delete_video e k w) = Inl (failed_to_delete msg) \<and>
      rows (snd (delete_video e k w)) = rows w"
    by (simp add: delete_video_def Let_def delete_file_safely_rows)
  have c: "fst (delete_video (e\<lparr>remove_raises := True\<rparr>) k w) =
     fst (delete_video (e\<lparr>remove_raises := False\<rparr>) k w)"
    by (simp add: delete_video_def Let_def split: option.splits)
  have d: "rows (snd (delete_video (e\<lparr>remove_raises := True\<rparr>) k w)) =
     rows (snd (delete_video (e\<lparr>remove_raises := False\<rparr>) k w))"
    by (simp add: delete_video_def Let_def delete_file_safely_rows split: option.splits)
  from a b b' c d show ?thesis by blast
qed

theorem delete_semantics_witness:
  "query_first 7 sample_world = None \<and>
   delete_video sample_env 7 sample_world = (Inl not_found, sample_world) \<and>
   query_first 1 sample_world = Some sample_video \<and>
   fst (delete_video sample_env 1 sample_world) = Inr see_admin \<and>
   rows (snd (delete_video sample_env 1 sample_world)) = [] \<and>
   files (snd (delete_video sample_env 1 sample_world)) ''static/banners/old.jpg'' = None \<and>
   fst (delete_video (sample_env\<lparr>remove_raises := True\<rparr>) 1 sample_world) = Inr see_admin \<and>
   rows (snd (delete_video (sample_env\<lparr>remove_raises := True\<rparr>) 1 sample_world)) = [] \<and>
   fst (delete_video (sample_env\<lparr>commit_raises := Some ''db down''\<rparr>) 1 sample_world) =
     Inl (failed_to_delete ''db down'') \<and>
   rows (snd (delete_video (sample_env\<lparr>commit_raises := Some ''db down''\<rparr>) 1 sample_world)) =
     rows sample_world"
proof -
  have q7: "query_first 7 sample_world = None"
    by (simp add: query_first_def sample_world_def sample_video_def)
  have c: "commit_raises sample_env = None" "\<not> remove_raises sample_env"
          "sample_env\<lparr>remove_raises := False\<rparr> = sample_env"
    by (simp_all add: sample_env_def)
  have fl: "filter (\<lambda>r. id_col r \<noteq> 1) (rows sample_world) = []"
    by (simp add: sample_world_def sample_video_def)
  have 1: "delete_video sample_env 7 sample_world = (Inl not_found, sample_world)"
    using delete_semantics[of 7 sample_world sample_env] q7 by blast
  have 2: "fst (delete_video sample_env 1 sample_world) = Inr see_admin \<and>
      rows (snd (delete_video sample_env 1 sample_world)) = [] \<and>
      files (snd (delete_video sample_env 1 sample_world)) ''static/banners/old.jpg'' = None"
    using delete_semantics[of 1 sample_world sample_env] sample_query c fl sample_video_fields
    by simp
  have 3: "fst (delete_video (sample_env\<lparr>remove_raises := True\<rparr>) 1 sample_world) = Inr see_admin \<and>
      rows (snd (delete_video (sample_env\<lparr>remove_raises := True\<rparr>) 1 sample_world)) = []"
    using delete_semantics[of 1 sample_world sample_env] 2 c by simp
  have 4: "fst (delete_video (sample_env\<lparr>commit_raises := Some ''db down''\<rparr>) 1 sample_world) =
     Inl (failed_to_delete ''db down'') \<and>
   rows (snd (delete_video (sample_env\<lparr>commit_raises := Some ''db down''\<rparr>) 1 sample_world)) =
     rows sample_world"
    using delete_semantics[of 1 sample_world "sample_env\<lparr>commit_raises := Some ''db down''\<rparr>"]
      sample_query
    by simp
  from q7 1 sample_query 2 3 4 show ?thesis by blast
qed


section \<open>Update: the old banner and the commit\<close>

text \<open>
  Claim C1 asks that the old banner is deleted only after the updated row is
  committed.  \<open>update_video\<close> deletes it before \<open>db.commit()\<close>: in the run below the
  new banner is written, the old one is removed, and the commit then raises.  The
  update fails with the 500 error, the table still holds the old row, whose
  \<open>banner_path\<close> names the file that is gone.  The last conjunct shows the same
  order of effects when the commit succeeds.
\<close>

theorem update_removes_old_banner_before_commit:
  "fst (update_video (sample_env\<lparr>commit_raises := Some ''db down''\<rparr>) 1 ''Clip 2'' None None
          ''https://streamtape.com/e/ABC123/'' (Some sample_banner) sample_world) =
     Inl (failed_to_update ''db down'') \<and>
   rows (snd (update_video (sample_env\<lparr>commit_raises := Some ''db down''\<rparr>) 1 ''Clip 2'' None
          None ''https://streamtape.com/e/ABC123/'' (Some sample_banner) sample_world)) =
     [sample_video] \<and>
   banner_path sample_video = ''static/banners/old.jpg'' \<and>
   files sample_world ''static/banners/old.jpg'' = Some ''OLD'' \<and>
   files (snd (update_video (sample_env\<lparr>commit_raises := Some ''db down''\<rparr>) 1 ''Clip 2'' None
          None ''https://streamtape.com/e/ABC123/'' (Some sample_banner) sample_world))
     ''static/banners/old.jpg'' = None \<and>
   effects (snd (update_video (sample_env\<lparr>commit_raises := Some ''db down''\<rparr>) 1 ''Clip 2'' None
          None ''https://streamtape.com/e/ABC123/'' (Some sample_banner) sample_world)) =
     [FileWritten ''static/banners/u2.png'', FileRemoved ''static/banners/old.jpg'',
      CommitFailed] \<and>
   effects (snd (update_video sample_env 1 ''Clip 2'' None None
          ''https://streamtape.com/e/ABC123/'' (Some sample_banner) sample_world)) =
     [FileWritten ''static/banners/u2.png'', FileRemoved ''static/banners/old.jpg'',
      Committed]"
  by (simp add: update_video_def query_first_def validate_form_input_def strip_def
        isspace_def new_banner_def save_uploaded_file_def sample_banner_def sample_env_def
        is_image_def startswith_def new_file_path_def file_extension_def Let_def
        delete_file_safely_def commit_update_def sample_video_def sample_world_def)


section \<open>Upload: the persisted embed id\<close>

text \<open>
  Claim C4 asks that every persisted row has a non-empty \<open>streamtape_id\<close> equal to the
  extraction applied to its stored URL.  An upload with the URL
  \<open>https://streamtape.com/\<close> passes validation and stores the empty id: the sentinel
  is only returned from the exception handler, which string splitting never reaches.
  An upload whose URL ends in a space stores the stripped URL but the id extracted
  from the unstripped one.
\<close>

theorem upload_persists_empty_streamtape_id:
  "fst (upload_video sample_env ''Clip'' None None ''https://streamtape.com/'' sample_banner
          sample_world) = Inr see_admin \<and>
   map streamtape_id (rows (snd (upload_video sample_env ''Clip'' None None
          ''https://streamtape.com/'' sample_banner sample_world))) = [''clip.mp4'', []] \<and>
   fst (upload_video sample_env ''Clip'' None None ''https://streamtape.com/e/ABC123 ''
          sample_banner sample_world) = Inr see_admin \<and>
   map (\<lambda>v. (streamtape_url v, streamtape_id v))
     (rows (snd (upload_video sample_env ''Clip'' None None ''https://streamtape.com/e/ABC123 ''
          sample_banner sample_world))) =
     [(''https://streamtape.com/v/ABC123/clip.mp4'', ''clip.mp4''),
      (''https://streamtape.com/e/ABC123'', ''ABC123 '')] \<and>
   extract_streamtape_id ''https://streamtape.com/e/ABC123'' = ''ABC123''"
  by (simp add: upload_video_def validate_form_input_def strip_def isspace_def
        save_uploaded_file_def sample_banner_def sample_env_def sample_world_def is_image_def
        startswith_def new_file_path_def file_extension_def new_id_def sample_video_def
        strip_or_none_def extract_streamtape_id_def extract_body_def index_last_def
        index_first_def replace_def Let_def)

end
